theory Spec2Isabelle
  imports Complex_Main
begin

section \<open>Data model (types.ts)\<close>

text \<open>
  JavaScript strings are modelled as \<open>string\<close>: each \<open>char\<close> stands for one code unit
  in the range 0..255. The arguments of \<open>Date.now()\<close> are passed in as integers.
\<close>

datatype Role = USER | ASSISTANT

record Message =
  role :: Role
  content :: string
  timestamp :: int

record SpeechState =
  isListening :: bool
  transcript :: string
  isProcessing :: bool
  error :: "string option"

text \<open>
  A value as \<open>JSON.parse\<close> returns it. An object keeps its members in the order of the
  text. The TypeScript type \<open>EvaluationResult\<close> is erased at run time: the cast
  \<open>as EvaluationResult\<close> checks nothing, so the stored evaluation is whatever JSON value
  the service's text parsed to.
\<close>

datatype json =
    JNull
  | JBool bool
  | JNumber real
  | JString string
  | JArray "json list"
  | JObject "(string \<times> json) list"

type_synonym EvaluationResult = json

section \<open>String.prototype.trim\<close>

text \<open>
  \<open>trim\<close> removes the code units of WhiteSpace and LineTerminator from both ends. Of
  these, TAB, LF, VT, FF, CR, SP and NBSP lie in the range of \<open>char\<close>.
\<close>

definition isWhiteSpace :: "char \<Rightarrow> bool" where
  "isWhiteSpace c \<longleftrightarrow> (of_char c :: nat) \<in> {9, 10, 11, 12, 13, 32, 160}"

definition trim :: "string \<Rightarrow> string" where
  "trim s = rev (dropWhile isWhiteSpace (rev (dropWhile isWhiteSpace s)))"

section \<open>The remote generation service (geminiService.ts)\<close>

text \<open>A settled promise: rejected with an error of the given \<open>name\<close>, or resolved.\<close>

datatype 'a settled = Rejected string | Resolved 'a

datatype Schema =
    TString
  | TNumber
  | TArray Schema
  | TObject "(string \<times> Schema) list" "string list"

record Content =
  content_role :: string
  parts :: "string list"

record GenerationConfig =
  systemInstruction :: "string option"
  temperature :: "real option"
  topP :: "real option"
  topK :: "nat option"
  responseMimeType :: "string option"
  responseSchema :: "Schema option"

record GenerateContentParameters =
  model :: string
  contents :: "Content list"
  config :: GenerationConfig

record GenerateContentResponse =
  response_text :: "string option"

text \<open>
  \<open>ai.models.generateContent\<close> is the black-box service: a function from the request
  to the settled promise. \<open>response_text\<close> is \<open>response.text\<close>, which may be undefined.
\<close>

type_synonym generateContent = "GenerateContentParameters \<Rightarrow> GenerateContentResponse settled"

datatype error = Error string

definition LF :: char where
  "LF = CHR 0x0A"

definition SYSTEM_INSTRUCTION :: string where
  "SYSTEM_INSTRUCTION =
     ''You are LinguaBot, a friendly English speaking coach. '' @ [LF] @
     ''Reply conversationally in spoken English, not formal writing.'' @ [LF] @
     ''Keep responses under 3 short sentences.'' @ [LF] @
     ''Ask simple follow-up questions to continue the conversation.'' @ [LF] @
     ''Gently correct major grammar mistakes by naturally restating the correct sentence in your reply.''"

definition no_config :: GenerationConfig where
  "no_config = \<lparr>systemInstruction = None, temperature = None, topP = None, topK = None,
     responseMimeType = None, responseSchema = None\<rparr>"

definition chat_contents :: "Message list \<Rightarrow> Content list" where
  "chat_contents history =
     map (\<lambda>msg. \<lparr>content_role = (if role msg = USER then ''user'' else ''model''),
                  parts = [content msg]\<rparr>) history"

definition chat_request :: "Message list \<Rightarrow> GenerateContentParameters" where
  "chat_request history =
     \<lparr>model = ''gemini-3-flash-preview'',
      contents = chat_contents history,
      config = no_config\<lparr>systemInstruction := Some SYSTEM_INSTRUCTION,
        temperature := Some 0.7, topP := Some 0.95, topK := Some 40\<rparr>\<rparr>"

definition chat_fallback :: string where
  "chat_fallback = ''I'm sorry, I couldn't process that.''"

text \<open>
  \<open>response.text || fallback\<close>: an undefined or empty text is falsy. Whatever the
  service throws is caught and replaced by the fixed error.
\<close>

definition getGeminiChatResponse :: "generateContent \<Rightarrow> Message list \<Rightarrow> error + string" where
  "getGeminiChatResponse generate history =
     (case generate (chat_request history) of
        Rejected _ \<Rightarrow> Inl (Error ''Failed to get response from LinguaBot.'')
      | Resolved response \<Rightarrow>
          (case response_text response of
             None \<Rightarrow> Inr chat_fallback
           | Some t \<Rightarrow> Inr (if t = [] then chat_fallback else t)))"

section \<open>JSON.parse\<close>

text \<open>
  \<open>JSON.parse\<close> belongs to the platform. \<open>evaluateSpeaking\<close> below takes the parser as
  a parameter; \<open>JSON_parse\<close> is a recursive-descent parser of the JSON grammar over
  \<open>string\<close>, used to run the client on concrete response texts. An escape
  \<open>\uXXXX\<close> above 00FF has no \<open>char\<close> and is refused; a number is read as the
  exact decimal it writes. The fuel of \<open>parse_value\<close> bounds the nesting depth and the
  number of members of one array or object; \<open>JSON_parse\<close> starts it above the length of
  the text.
\<close>

definition json_ws :: "char \<Rightarrow> bool" where
  "json_ws c \<longleftrightarrow> (of_char c :: nat) \<in> {32, 9, 10, 13}"

definition skip_ws :: "string \<Rightarrow> string" where
  "skip_ws s = dropWhile json_ws s"

definition is_digit :: "char \<Rightarrow> bool" where
  "is_digit c \<longleftrightarrow> 48 \<le> (of_char c :: nat) \<and> (of_char c :: nat) \<le> 57"

definition digits_value :: "string \<Rightarrow> nat" where
  "digits_value ds = foldl (\<lambda>n c. 10 * n + (of_char c - 48)) 0 ds"

definition hex_value :: "char \<Rightarrow> nat option" where
  "hex_value c =
     (let n = (of_char c :: nat) in
      if 48 \<le> n \<and> n \<le> 57 then Some (n - 48)
      else if 65 \<le> n \<and> n \<le> 70 then Some (n - 55)
      else if 97 \<le> n \<and> n \<le> 102 then Some (n - 87)
      else None)"

definition unescape :: "char \<Rightarrow> char option" where
  "unescape e =
     (if e = CHR 0x22 then Some (CHR 0x22)
      else if e = CHR 0x5C then Some (CHR 0x5C)
      else if e = CHR ''/'' then Some (CHR ''/'')
      else if e = CHR ''b'' then Some (CHR 0x08)
      else if e = CHR ''f'' then Some (CHR 0x0C)
      else if e = CHR ''n'' then Some (CHR 0x0A)
      else if e = CHR ''r'' then Some (CHR 0x0D)
      else if e = CHR ''t'' then Some (CHR 0x09)
      else None)"

definition hex4 :: "char \<Rightarrow> char \<Rightarrow> char \<Rightarrow> char \<Rightarrow> nat option" where
  "hex4 a b c d =
     (case (hex_value a, hex_value b, hex_value c, hex_value d) of
        (Some p, Some q, Some r, Some s) \<Rightarrow> Some (((p * 16 + q) * 16 + r) * 16 + s)
      | _ \<Rightarrow> None)"

fun parse_chars :: "string \<Rightarrow> (string \<times> string) option" where
  "parse_chars [] = None"
| "parse_chars (c # cs) =
     (if c = CHR 0x22 then Some ([], cs)
      else if c = CHR 0x5C then
        (case cs of
           [] \<Rightarrow> None
         | e # r \<Rightarrow>
             if e = CHR ''u'' then
               (case r of
                  h1 # h2 # h3 # h4 # r' \<Rightarrow>
                    (case hex4 h1 h2 h3 h4 of
                       None \<Rightarrow> None
                     | Some n \<Rightarrow>
                         if n < 256 then map_option (apfst ((#) (char_of n))) (parse_chars r')
                         else None)
                | _ \<Rightarrow> None)
             else
               (case unescape e of
                  None \<Rightarrow> None
                | Some x \<Rightarrow> map_option (apfst ((#) x)) (parse_chars r)))
      else if (of_char c :: nat) < 32 then None
      else map_option (apfst ((#) c)) (parse_chars cs))"

definition parse_number :: "string \<Rightarrow> (real \<times> string) option" where
  "parse_number s =
     (let negative = (s \<noteq> [] \<and> hd s = CHR ''-'');
          s1 = (if negative then tl s else s);
          ip = takeWhile is_digit s1;
          s2 = dropWhile is_digit s1;
          has_frac = (s2 \<noteq> [] \<and> hd s2 = CHR ''.'');
          fp = (if has_frac then takeWhile is_digit (tl s2) else []);
          s3 = (if has_frac then dropWhile is_digit (tl s2) else s2);
          has_exp = (s3 \<noteq> [] \<and> (hd s3 = CHR ''e'' \<or> hd s3 = CHR ''E''));
          s4 = (if has_exp then tl s3 else s3);
          exp_negative = (has_exp \<and> s4 \<noteq> [] \<and> hd s4 = CHR ''-'');
          s5 = (if has_exp \<and> s4 \<noteq> [] \<and> (hd s4 = CHR ''-'' \<or> hd s4 = CHR ''+'') then tl s4 else s4);
          ep = (if has_exp then takeWhile is_digit s5 else []);
          s6 = (if has_exp then dropWhile is_digit s5 else s3);
          mantissa = real (digits_value ip) + real (digits_value fp) / 10 ^ length fp;
          scaled = (if exp_negative then mantissa / 10 ^ digits_value ep
                    else mantissa * 10 ^ digits_value ep)
      in if ip = [] \<or> (1 < length ip \<and> hd ip = CHR ''0'') \<or> (has_frac \<and> fp = [])
            \<or> (has_exp \<and> ep = [])
         then None
         else Some (if negative then - scaled else scaled, s6))"

fun parse_value :: "nat \<Rightarrow> string \<Rightarrow> (json \<times> string) option"
  and parse_elements :: "nat \<Rightarrow> string \<Rightarrow> (json list \<times> string) option"
  and parse_members :: "nat \<Rightarrow> string \<Rightarrow> ((string \<times> json) list \<times> string) option"
where
  "parse_value 0 s = None"
| "parse_value (Suc n) s =
     (case skip_ws s of
        [] \<Rightarrow> None
      | c # cs \<Rightarrow>
          if c = CHR ''{'' then
            (case skip_ws cs of
               [] \<Rightarrow> None
             | d # r \<Rightarrow> if d = CHR ''}'' then Some (JObject [], r)
                        else map_option (apfst JObject) (parse_members n (d # r)))
          else if c = CHR ''['' then
            (case skip_ws cs of
               [] \<Rightarrow> None
             | d # r \<Rightarrow> if d = CHR '']'' then Some (JArray [], r)
                        else map_option (apfst JArray) (parse_elements n (d # r)))
          else if c = CHR 0x22 then map_option (apfst JString) (parse_chars cs)
          else if take 4 (c # cs) = ''true'' then Some (JBool True, drop 4 (c # cs))
          else if take 5 (c # cs) = ''false'' then Some (JBool False, drop 5 (c # cs))
          else if take 4 (c # cs) = ''null'' then Some (JNull, drop 4 (c # cs))
          else map_option (apfst JNumber) (parse_number (c # cs)))"
| "parse_elements 0 s = None"
| "parse_elements (Suc n) s =
     (case parse_value n s of
        None \<Rightarrow> None
      | Some (v, r) \<Rightarrow>
          (case skip_ws r of
             [] \<Rightarrow> None
           | c # cs \<Rightarrow>
               if c = CHR '','' then map_option (apfst ((#) v)) (parse_elements n cs)
               else if c = CHR '']'' then Some ([v], cs)
               else None))"
| "parse_members 0 s = None"
| "parse_members (Suc n) s =
     (case skip_ws s of
        [] \<Rightarrow> None
      | q # cs \<Rightarrow>
          if q \<noteq> CHR 0x22 then None
          else
            (case parse_chars cs of
               None \<Rightarrow> None
             | Some (k, r) \<Rightarrow>
                 (case skip_ws r of
                    [] \<Rightarrow> None
                  | c # r1 \<Rightarrow>
                      if c \<noteq> CHR '':'' then None
                      else
                        (case parse_value n r1 of
                           None \<Rightarrow> None
                         | Some (v, r2) \<Rightarrow>
                             (case skip_ws r2 of
                                [] \<Rightarrow> None
                              | d # r3 \<Rightarrow>
                                  if d = CHR '','' then
                                    map_option (apfst ((#) (k, v))) (parse_members n r3)
                                  else if d = CHR ''}'' then Some ([(k, v)], r3)
                                  else None)))))"

definition JSON_parse :: "string \<Rightarrow> json option" where
  "JSON_parse s =
     (case parse_value (Suc (length s)) s of
        None \<Rightarrow> None
      | Some (v, r) \<Rightarrow> if skip_ws r = [] then Some v else None)"

text \<open>Member lookup: of two members with one key, \<open>JSON.parse\<close> keeps the later.\<close>

definition field :: "string \<Rightarrow> json \<Rightarrow> json option" where
  "field k j = (case j of JObject ms \<Rightarrow> map_of (rev ms) k | _ \<Rightarrow> None)"

fun string_of :: "json \<Rightarrow> string option" where
  "string_of (JString t) = Some t"
| "string_of _ = None"

text \<open>
  \<open>tips_of\<close> reads \<open>result.tips\<close> as the list of strings the type declares, if it is
  one.
\<close>

definition tips_of :: "json \<Rightarrow> string list option" where
  "tips_of j =
     (case field ''tips'' j of
        Some (JArray vs) \<Rightarrow>
          if list_all (\<lambda>v. string_of v \<noteq> None) vs then Some (map (\<lambda>v. the (string_of v)) vs)
          else None
      | _ \<Rightarrow> None)"

section \<open>Evaluation Client (geminiService.ts)\<close>

definition DQ :: string where
  "DQ = [CHR 0x22]"

definition evaluation_prompt :: "string \<Rightarrow> string" where
  "evaluation_prompt t =
     ''You are an IELTS speaking examiner.'' @ [LF] @
     ''Evaluate the following spoken answer and return ONLY valid JSON:'' @ [LF] @
     [LF] @
     ''{'' @ [LF] @
     ''  '' @ DQ @ ''band_score'' @ DQ @ '': number,'' @ [LF] @
     ''  '' @ DQ @ ''feedback'' @ DQ @ '': string,'' @ [LF] @
     ''  '' @ DQ @ ''grammar_corrections'' @ DQ @ '': ['' @ [LF] @
     ''    {'' @ DQ @ ''original'' @ DQ @ '': string, '' @ DQ @ ''corrected'' @ DQ @ '': string}'' @ [LF] @
     ''  ],'' @ [LF] @
     ''  '' @ DQ @ ''tips'' @ DQ @ '': [string, string, string]'' @ [LF] @
     ''}'' @ [LF] @
     [LF] @
     ''Answer: '' @ t"

definition evaluation_schema :: Schema where
  "evaluation_schema =
     TObject
       [(''band_score'', TNumber),
        (''feedback'', TString),
        (''grammar_corrections'',
           TArray (TObject [(''original'', TString), (''corrected'', TString)]
                           [''original'', ''corrected''])),
        (''tips'', TArray TString)]
       [''band_score'', ''feedback'', ''grammar_corrections'', ''tips'']"

definition evaluation_request :: "string \<Rightarrow> GenerateContentParameters" where
  "evaluation_request t =
     \<lparr>model = ''gemini-3-flash-preview'',
      contents = [\<lparr>content_role = ''user'', parts = [evaluation_prompt t]\<rparr>],
      config = no_config\<lparr>responseMimeType := Some ''application/json'',
        responseSchema := Some evaluation_schema\<rparr>\<rparr>"

definition evaluation_failed :: error where
  "evaluation_failed = Error ''Failed to evaluate your speaking.''"

text \<open>
  Inside the \<open>try\<close>: the service may throw, \<open>response.text.trim()\<close> throws when the
  text is undefined, and \<open>JSON.parse\<close> throws on a text that is not JSON (\<open>parse\<close>
  gives \<open>None\<close>). The parsed value is returned as it is.
\<close>

definition evaluateSpeaking ::
    "(string \<Rightarrow> json option) \<Rightarrow> generateContent \<Rightarrow> string \<Rightarrow> error + EvaluationResult" where
  "evaluateSpeaking parse generate t =
     (case generate (evaluation_request t) of
        Rejected _ \<Rightarrow> Inl evaluation_failed
      | Resolved response \<Rightarrow>
          (case response_text response of
             None \<Rightarrow> Inl evaluation_failed
           | Some jsonText \<Rightarrow>
               (case parse (trim jsonText) of
                  None \<Rightarrow> Inl evaluation_failed
                | Some v \<Rightarrow> Inr v)))"

text \<open>
  What the response schema asks of a value, read as the service's documentation of
  its schema objects gives it: the type matches, every item of an array matches the item
  schema, every required property is there, and every member is a declared property
  that matches its schema. The schema the client sends bounds no array's length.
\<close>

fun conforms :: "Schema \<Rightarrow> json \<Rightarrow> bool" where
  "conforms TString j = (case j of JString _ \<Rightarrow> True | _ \<Rightarrow> False)"
| "conforms TNumber j = (case j of JNumber _ \<Rightarrow> True | _ \<Rightarrow> False)"
| "conforms (TArray items) j =
     (case j of JArray vs \<Rightarrow> list_all (conforms items) vs | _ \<Rightarrow> False)"
| "conforms (TObject properties required) j =
     (case j of
        JObject ms \<Rightarrow>
          list_all (\<lambda>k. field k j \<noteq> None) required
          \<and> list_all (\<lambda>k. k \<in> fst ` set properties) (map fst ms)
          \<and> list_all (\<lambda>(k, sch). case field k j of None \<Rightarrow> True | Some v \<Rightarrow> conforms sch v)
               properties
      | _ \<Rightarrow> False)"

section \<open>Session Controller (App.tsx)\<close>

text \<open>
  The component's state: the four \<open>useState\<close> cells, and two facts about the browser
  that never change after mounting: whether \<open>recognitionRef.current\<close> holds a
  recognition object, and whether \<open>speechSynthesis\<close> is in \<open>window\<close>.
\<close>

record App =
  messages :: "Message list"
  speechState :: SpeechState
  evaluation :: "EvaluationResult option"
  isEvaluating :: bool
  recognitionRef :: bool
  speechSynthesis :: bool

text \<open>The state setters, each applied to an updater \<open>prev => ...\<close>.\<close>

definition setSpeechState :: "(SpeechState \<Rightarrow> SpeechState) \<Rightarrow> App \<Rightarrow> App" where
  "setSpeechState f a = a\<lparr>speechState := f (speechState a)\<rparr>"

definition setMessages :: "(Message list \<Rightarrow> Message list) \<Rightarrow> App \<Rightarrow> App" where
  "setMessages f a = a\<lparr>messages := f (messages a)\<rparr>"

definition setEvaluation :: "EvaluationResult option \<Rightarrow> App \<Rightarrow> App" where
  "setEvaluation v a = a\<lparr>evaluation := v\<rparr>"

definition setIsEvaluating :: "bool \<Rightarrow> App \<Rightarrow> App" where
  "setIsEvaluating b a = a\<lparr>isEvaluating := b\<rparr>"

text \<open>The calls a handler makes on its collaborators, in the order it makes them.\<close>

datatype effect =
    GetUserMedia
  | RecognitionStart
  | RecognitionStop
  | ChatRequest "Message list"
  | EvalRequest string
  | SynthesisCancel
  | SynthesisSpeak string

subsection \<open>Mounting\<close>

definition greeting :: string where
  "greeting = ''Hi! I'm LinguaBot. I'm here to help you practice your English. Ready to start talking?''"

definition unsupported_error :: string where
  "unsupported_error = ''Web Speech API is not supported in this browser. Please use a modern browser like Chrome or Edge.''"

definition initial_App :: "bool \<Rightarrow> bool \<Rightarrow> int \<Rightarrow> App" where
  "initial_App recognition synthesis now =
     (let a = \<lparr>messages = [\<lparr>role = ASSISTANT, content = greeting, timestamp = now\<rparr>],
                speechState = \<lparr>isListening = False, transcript = [], isProcessing = False,
                                error = None\<rparr>,
                evaluation = None, isEvaluating = False,
                recognitionRef = recognition, speechSynthesis = synthesis\<rparr>
      in if recognition then a
         else setSpeechState (\<lambda>prev. prev\<lparr>error := Some unsupported_error\<rparr>) a)"

subsection \<open>Recognition callbacks\<close>

text \<open>
  \<open>onresult\<close>: \<open>results\<close> holds the transcript of the first alternative of each
  result; the loop concatenates them from \<open>resultIndex\<close> on.
\<close>

definition onresult :: "nat \<Rightarrow> string list \<Rightarrow> App \<Rightarrow> App" where
  "onresult resultIndex results a =
     setSpeechState (\<lambda>prev. prev\<lparr>transcript := concat (drop resultIndex results)\<rparr>) a"

definition onerror_message :: "string \<Rightarrow> string" where
  "onerror_message code =
     (if code = ''not-allowed'' then
        ''Microphone access is blocked. Please check your browser's site settings and 'Allow' microphone access for this site.''
      else if code = ''no-speech'' then
        ''No speech was detected. Please try speaking clearly.''
      else if code = ''network'' then
        ''A network error occurred. Please check your internet connection.''
      else if code = ''audio-capture'' then
        ''No microphone was found. Please ensure your microphone is plugged in.''
      else ''An error occurred with speech recognition.'')"

definition onerror :: "string \<Rightarrow> App \<Rightarrow> App" where
  "onerror code a =
     setSpeechState (\<lambda>prev. prev\<lparr>error := Some (onerror_message code), isListening := False\<rparr>) a"

definition onend :: "App \<Rightarrow> App" where
  "onend a = setSpeechState (\<lambda>prev. prev\<lparr>isListening := False\<rparr>) a"

subsection \<open>speakText\<close>

text \<open>The choice of a voice does not touch the component's state and is left out.\<close>

definition speakText :: "string \<Rightarrow> App \<Rightarrow> effect list" where
  "speakText t a = (if speechSynthesis a then [SynthesisCancel, SynthesisSpeak t] else [])"

subsection \<open>startListening\<close>

text \<open>
  An async handler is split where it awaits: \<open>_call\<close> runs up to the \<open>await\<close>,
  \<open>_resume\<close> runs from the settled promise to the end.
\<close>

definition startListening_call :: "App \<Rightarrow> App \<times> effect list" where
  "startListening_call a =
     (setSpeechState (\<lambda>prev. prev\<lparr>error := None, transcript := []\<rparr>) a, [GetUserMedia])"

definition permission_message :: "string \<Rightarrow> string" where
  "permission_message name =
     (if name = ''NotAllowedError'' \<or> name = ''PermissionDeniedError'' then
        ''Microphone access is blocked. Click the 'lock' or 'camera/mic' icon in your browser's address bar to reset permissions.''
      else if name = ''NotFoundError'' \<or> name = ''DevicesNotFoundError'' then
        ''No microphone found. Please connect a microphone and try again.''
      else ''Microphone permission denied. Please allow microphone access in your browser settings to continue.'')"

definition startListening_catch :: "string \<Rightarrow> App \<Rightarrow> App" where
  "startListening_catch name a =
     setSpeechState (\<lambda>prev. prev\<lparr>error := Some (permission_message name), isListening := False\<rparr>) a"

text \<open>
  \<open>media\<close> is how \<open>getUserMedia\<close> settled; \<open>started\<close> is what
  \<open>recognitionRef.current.start()\<close> does if it is reached: \<open>None\<close> when it returns,
  the name of the error when it throws (inside the same \<open>try\<close>).
\<close>

definition startListening_resume :: "unit settled \<Rightarrow> string option \<Rightarrow> App \<Rightarrow> App \<times> effect list" where
  "startListening_resume media started a =
     (case media of
        Rejected name \<Rightarrow> (startListening_catch name a, [])
      | Resolved _ \<Rightarrow>
          if recognitionRef a then
            (let a1 = setSpeechState (\<lambda>prev. prev\<lparr>isListening := True\<rparr>) a in
             case started of
               None \<Rightarrow> (a1, [RecognitionStart])
             | Some name \<Rightarrow> (startListening_catch name a1, [RecognitionStart]))
          else (a, []))"

definition startListening :: "unit settled \<Rightarrow> string option \<Rightarrow> App \<Rightarrow> App \<times> effect list" where
  "startListening media started a =
     (let (a1, e1) = startListening_call a;
          (a2, e2) = startListening_resume media started a1
      in (a2, e1 @ e2))"

subsection \<open>stopListeningAndSend\<close>

definition nothing_heard_error :: string where
  "nothing_heard_error = ''I didn't hear anything. Try clicking 'Start Talking' again.''"

definition connect_error :: string where
  "connect_error = ''Failed to connect to LinguaBot service. Please check your connection.''"

text \<open>
  The handler reads \<open>speechState.transcript\<close> and \<open>messages\<close> of the render it was
  created in, which is the state \<open>a\<close> the click finds; the setters with an updater see
  the state as it is then. \<open>now\<close> is \<open>Date.now()\<close>.
\<close>

definition stopListeningAndSend_call :: "int \<Rightarrow> App \<Rightarrow> App \<times> effect list" where
  "stopListeningAndSend_call now a =
     (if recognitionRef a then
        (let a1 = setSpeechState (\<lambda>prev. prev\<lparr>isListening := False\<rparr>) a;
             finalTranscript = trim (transcript (speechState a))
         in if finalTranscript = [] then
              (setSpeechState (\<lambda>prev. prev\<lparr>error := Some nothing_heard_error\<rparr>) a1,
               [RecognitionStop])
            else
              (let userMessage = \<lparr>role = USER, content = finalTranscript, timestamp = now\<rparr>;
                   newHistory = messages a @ [userMessage];
                   a2 = setMessages (\<lambda>_. newHistory) a1;
                   a3 = setSpeechState (\<lambda>prev. prev\<lparr>isProcessing := True, transcript := []\<rparr>) a2;
                   a4 = setEvaluation None a3
               in (a4, [RecognitionStop, ChatRequest newHistory])))
      else (a, []))"

definition stopListeningAndSend_resume :: "error + string \<Rightarrow> int \<Rightarrow> App \<Rightarrow> App \<times> effect list" where
  "stopListeningAndSend_resume reply now a =
     (let (a1, e1) =
        (case reply of
           Inr aiResponse \<Rightarrow>
             (setMessages (\<lambda>prev. prev @ [\<lparr>role = ASSISTANT, content = aiResponse,
                                           timestamp = now\<rparr>]) a,
              speakText aiResponse a)
         | Inl _ \<Rightarrow> (setSpeechState (\<lambda>prev. prev\<lparr>error := Some connect_error\<rparr>) a, []))
      in (setSpeechState (\<lambda>prev. prev\<lparr>isProcessing := False\<rparr>) a1, e1))"

fun chat_requested :: "effect list \<Rightarrow> Message list option" where
  "chat_requested [] = None"
| "chat_requested (ChatRequest h # es) = Some h"
| "chat_requested (_ # es) = chat_requested es"

text \<open>
  The whole handler, with nothing else running between its two halves. \<open>chat\<close> is
  the Conversation Client, \<open>t1\<close> and \<open>t2\<close> the two readings of the clock.
\<close>

definition stopListeningAndSend ::
    "(Message list \<Rightarrow> error + string) \<Rightarrow> int \<Rightarrow> int \<Rightarrow> App \<Rightarrow> App \<times> effect list" where
  "stopListeningAndSend chat t1 t2 a =
     (let (a1, e1) = stopListeningAndSend_call t1 a in
      case chat_requested e1 of
        None \<Rightarrow> (a1, e1)
      | Some h \<Rightarrow> (let (a2, e2) = stopListeningAndSend_resume (chat h) t2 a1 in (a2, e1 @ e2)))"

subsection \<open>handleEvaluate\<close>

definition not_spoken_error :: string where
  "not_spoken_error = ''You haven't spoken yet! Say something first.''"

definition evaluate_error :: string where
  "evaluate_error = ''Could not evaluate your speaking at this time.''"

definition handleEvaluate_call :: "App \<Rightarrow> App \<times> effect list" where
  "handleEvaluate_call a =
     (case find (\<lambda>m. role m = USER) (rev (messages a)) of
        None \<Rightarrow> (setSpeechState (\<lambda>prev. prev\<lparr>error := Some not_spoken_error\<rparr>) a, [])
      | Some lastUserMessage \<Rightarrow>
          (setSpeechState (\<lambda>prev. prev\<lparr>error := None\<rparr>) (setIsEvaluating True a),
           [EvalRequest (content lastUserMessage)]))"

definition handleEvaluate_resume :: "error + EvaluationResult \<Rightarrow> App \<Rightarrow> App" where
  "handleEvaluate_resume outcome a =
     setIsEvaluating False
       (case outcome of
          Inr result \<Rightarrow> setEvaluation (Some result) a
        | Inl _ \<Rightarrow> setSpeechState (\<lambda>prev. prev\<lparr>error := Some evaluate_error\<rparr>) a)"

fun eval_requested :: "effect list \<Rightarrow> string option" where
  "eval_requested [] = None"
| "eval_requested (EvalRequest t # es) = Some t"
| "eval_requested (_ # es) = eval_requested es"

text \<open>The whole handler; \<open>evaluate\<close> is the Evaluation Client.\<close>

definition handleEvaluate :: "(string \<Rightarrow> error + EvaluationResult) \<Rightarrow> App \<Rightarrow> App \<times> effect list" where
  "handleEvaluate evaluate a =
     (let (a1, e1) = handleEvaluate_call a in
      case eval_requested e1 of
        None \<Rightarrow> (a1, e1)
      | Some t \<Rightarrow> (handleEvaluate_resume (evaluate t) a1, e1))"

subsection \<open>The event loop\<close>

text \<open>
  Everything runs on one event loop, and a handler gives way at each \<open>await\<close>. The
  world holds the component's state, whether the recognition engine is running (between
  a \<open>start()\<close> that returned and its end event), how many calls of each handler are
  suspended at their \<open>await\<close>, and the calls made so far.
\<close>

record World =
  app :: App
  recActive :: bool
  pendingMedia :: nat
  pendingChat :: nat
  pendingEval :: nat
  trace :: "effect list"

datatype event =
    ClickStartTalking
  | MediaSettled "unit settled"
  | ClickStopAndSend int
  | ChatSettled "error + string" int
  | ClickPerformanceReport
  | EvalSettled "error + EvaluationResult"
  | ClickCloseAnalysis
  | RecognitionResult nat "string list"
  | RecognitionError string
  | RecognitionEnd

text \<open>
  The buttons as the markup renders them: Start Talking is shown while not listening
  and disabled while processing or evaluating; Stop and Send is shown while listening;
  Performance Report is disabled while listening, processing or evaluating, or with
  fewer than two messages; Close Analysis is shown with the evaluation.
\<close>

definition start_enabled :: "App \<Rightarrow> bool" where
  "start_enabled a \<longleftrightarrow>
     \<not> isListening (speechState a) \<and> \<not> (isProcessing (speechState a) \<or> isEvaluating a)"

definition stop_enabled :: "App \<Rightarrow> bool" where
  "stop_enabled a \<longleftrightarrow> isListening (speechState a)"

definition report_enabled :: "App \<Rightarrow> bool" where
  "report_enabled a \<longleftrightarrow>
     \<not> (isListening (speechState a) \<or> isProcessing (speechState a) \<or> isEvaluating a
        \<or> length (messages a) < 2)"

definition initial_World :: "bool \<Rightarrow> bool \<Rightarrow> int \<Rightarrow> World" where
  "initial_World recognition synthesis now =
     \<lparr>app = initial_App recognition synthesis now, recActive = False,
      pendingMedia = 0, pendingChat = 0, pendingEval = 0, trace = []\<rparr>"

text \<open>
  One turn of the loop; \<open>None\<close> when the event cannot happen in this world. A second
  \<open>start()\<close> on a running engine throws InvalidStateError. The engine delivers results
  and errors only while it runs, and its end event stops it.
\<close>

fun step :: "event \<Rightarrow> World \<Rightarrow> World option" where
  "step ClickStartTalking w =
     (if start_enabled (app w) then
        (let (a, es) = startListening_call (app w)
         in Some (w\<lparr>app := a, pendingMedia := pendingMedia w + 1, trace := trace w @ es\<rparr>))
      else None)"
| "step (MediaSettled media) w =
     (if 0 < pendingMedia w then
        (let started = (if recActive w then Some ''InvalidStateError'' else None);
             (a, es) = startListening_resume media started (app w)
         in Some (w\<lparr>app := a, pendingMedia := pendingMedia w - 1,
                     recActive := (recActive w \<or> RecognitionStart \<in> set es),
                     trace := trace w @ es\<rparr>))
      else None)"
| "step (ClickStopAndSend now) w =
     (if stop_enabled (app w) then
        (let (a, es) = stopListeningAndSend_call now (app w)
         in Some (w\<lparr>app := a,
                     pendingChat := pendingChat w + (if chat_requested es = None then 0 else 1),
                     trace := trace w @ es\<rparr>))
      else None)"
| "step (ChatSettled reply now) w =
     (if 0 < pendingChat w then
        (let (a, es) = stopListeningAndSend_resume reply now (app w)
         in Some (w\<lparr>app := a, pendingChat := pendingChat w - 1, trace := trace w @ es\<rparr>))
      else None)"
| "step ClickPerformanceReport w =
     (if report_enabled (app w) then
        (let (a, es) = handleEvaluate_call (app w)
         in Some (w\<lparr>app := a,
                     pendingEval := pendingEval w + (if eval_requested es = None then 0 else 1),
                     trace := trace w @ es\<rparr>))
      else None)"
| "step (EvalSettled outcome) w =
     (if 0 < pendingEval w then
        Some (w\<lparr>app := handleEvaluate_resume outcome (app w), pendingEval := pendingEval w - 1\<rparr>)
      else None)"
| "step ClickCloseAnalysis w =
     (if evaluation (app w) \<noteq> None then Some (w\<lparr>app := setEvaluation None (app w)\<rparr>)
      else None)"
| "step (RecognitionResult resultIndex results) w =
     (if recActive w then Some (w\<lparr>app := onresult resultIndex results (app w)\<rparr>) else None)"
| "step (RecognitionError code) w =
     (if recActive w then Some (w\<lparr>app := onerror code (app w)\<rparr>) else None)"
| "step RecognitionEnd w =
     (if recActive w then Some (w\<lparr>app := onend (app w), recActive := False\<rparr>) else None)"

fun run :: "event list \<Rightarrow> World \<Rightarrow> World option" where
  "run [] w = Some w"
| "run (e # es) w = (case step e w of None \<Rightarrow> None | Some w' \<Rightarrow> run es w')"

inductive reachable :: "World \<Rightarrow> bool" where
  mounted: "reachable (initial_World recognition synthesis now)"
| turn: "reachable w \<Longrightarrow> step e w = Some w' \<Longrightarrow> reachable w'"

subsection \<open>Between a send and its reply\<close>

text \<open>
  The events that may come while one Conversation Client call is awaited and that are
  neither a further Stop and Send click nor the settling of a call.
\<close>

fun is_send :: "event \<Rightarrow> bool" where
  "is_send (ClickStopAndSend now) = True"
| "is_send _ = False"

fun is_reply :: "event \<Rightarrow> bool" where
  "is_reply (ChatSettled reply now) = True"
| "is_reply _ = False"

fun is_result :: "event \<Rightarrow> bool" where
  "is_result (RecognitionResult resultIndex results) = True"
| "is_result _ = False"

definition waiting :: "event \<Rightarrow> bool" where
  "waiting e \<longleftrightarrow> \<not> is_send e \<and> \<not> is_reply e"

subsection \<open>Runs without overlapping starts\<close>

text \<open>
  The loop restricted to users who do not click Start Talking again while an earlier
  click still waits for the microphone permission.
\<close>

definition serial_step :: "event \<Rightarrow> World \<Rightarrow> World option" where
  "serial_step e w =
     (if e = ClickStartTalking \<and> 0 < pendingMedia w then None else step e w)"

inductive serially_reachable :: "World \<Rightarrow> bool" where
  serial_mounted: "serially_reachable (initial_World recognition synthesis now)"
| serial_turn: "serially_reachable w \<Longrightarrow> serial_step e w = Some w' \<Longrightarrow> serially_reachable w'"

text \<open>The invariant of such runs.\<close>

definition serial_inv :: "World \<Rightarrow> bool" where
  "serial_inv w \<longleftrightarrow>
     pendingMedia w \<le> 1
     \<and> (pendingMedia w = 0 \<or> \<not> isListening (speechState (app w)))
     \<and> (pendingMedia w = 0 \<or> \<not> isProcessing (speechState (app w)))
     \<and> \<not> (isListening (speechState (app w)) \<and> isProcessing (speechState (app w)))"

section \<open>Sample sessions\<close>

text \<open>The session in which the user has started talking and the engine has heard a sentence.\<close>

definition heard_trace :: "event list" where
  "heard_trace =
     [ClickStartTalking, MediaSettled (Resolved ()),
      RecognitionResult 0 ['' I go to school'', '' yesterday '']]"

definition heard_world :: World where
  "heard_world =
     \<lparr>app = \<lparr>messages = [\<lparr>role = ASSISTANT, content = greeting, timestamp = 0\<rparr>],
             speechState = \<lparr>isListening = True, transcript = '' I go to school yesterday '',
                             isProcessing = False, error = None\<rparr>,
             evaluation = None, isEvaluating = False,
             recognitionRef = True, speechSynthesis = True\<rparr>,
      recActive = True, pendingMedia = 0, pendingChat = 0, pendingEval = 0,
      trace = [GetUserMedia, RecognitionStart]\<rparr>"

text \<open>The session in which the engine has heard only blanks.\<close>

definition silent_trace :: "event list" where
  "silent_trace =
     [ClickStartTalking, MediaSettled (Resolved ()), RecognitionResult 0 [''  '']]"

definition silent_world :: World where
  "silent_world =
     \<lparr>app = \<lparr>messages = [\<lparr>role = ASSISTANT, content = greeting, timestamp = 0\<rparr>],
             speechState = \<lparr>isListening = True, transcript = ''  '',
                             isProcessing = False, error = None\<rparr>,
             evaluation = None, isEvaluating = False,
             recognitionRef = True, speechSynthesis = True\<rparr>,
      recActive = True, pendingMedia = 0, pendingChat = 0, pendingEval = 0,
      trace = [GetUserMedia, RecognitionStart]\<rparr>"

text \<open>
  The sentence is sent and answered; while the reply is awaited the engine only ends.
\<close>

definition answered_trace :: "event list" where
  "answered_trace =
     [ClickStopAndSend 1, RecognitionEnd, ChatSettled (Inr ''Nice! Where is your school?'') 2]"

definition answered_world :: World where
  "answered_world =
     \<lparr>app = \<lparr>messages =
               [\<lparr>role = ASSISTANT, content = greeting, timestamp = 0\<rparr>,
                \<lparr>role = USER, content = ''I go to school yesterday'', timestamp = 1\<rparr>,
                \<lparr>role = ASSISTANT, content = ''Nice! Where is your school?'', timestamp = 2\<rparr>],
             speechState = \<lparr>isListening = False, transcript = [],
                             isProcessing = False, error = None\<rparr>,
             evaluation = None, isEvaluating = False,
             recognitionRef = True, speechSynthesis = True\<rparr>,
      recActive = False, pendingMedia = 0, pendingChat = 0, pendingEval = 0,
      trace =
        [GetUserMedia, RecognitionStart, RecognitionStop,
         ChatRequest
           [\<lparr>role = ASSISTANT, content = greeting, timestamp = 0\<rparr>,
            \<lparr>role = USER, content = ''I go to school yesterday'', timestamp = 1\<rparr>],
         SynthesisCancel, SynthesisSpeak ''Nice! Where is your school?'']\<rparr>"

text \<open>
  The same turn, but after \<open>stop()\<close> the engine delivers the result for the audio it
  has captured, while the reply is awaited.
\<close>

definition late_result_trace :: "event list" where
  "late_result_trace =
     [ClickStopAndSend 1, RecognitionResult 0 ['' I go to school yesterday ''],
      ChatSettled (Inr ''Nice! Where is your school?'') 2]"

definition late_result_world :: World where
  "late_result_world =
     \<lparr>app = \<lparr>messages =
               [\<lparr>role = ASSISTANT, content = greeting, timestamp = 0\<rparr>,
                \<lparr>role = USER, content = ''I go to school yesterday'', timestamp = 1\<rparr>,
                \<lparr>role = ASSISTANT, content = ''Nice! Where is your school?'', timestamp = 2\<rparr>],
             speechState = \<lparr>isListening = False, transcript = '' I go to school yesterday '',
                             isProcessing = False, error = None\<rparr>,
             evaluation = None, isEvaluating = False,
             recognitionRef = True, speechSynthesis = True\<rparr>,
      recActive = True, pendingMedia = 0, pendingChat = 0, pendingEval = 0,
      trace =
        [GetUserMedia, RecognitionStart, RecognitionStop,
         ChatRequest
           [\<lparr>role = ASSISTANT, content = greeting, timestamp = 0\<rparr>,
            \<lparr>role = USER, content = ''I go to school yesterday'', timestamp = 1\<rparr>],
         SynthesisCancel, SynthesisSpeak ''Nice! Where is your school?'']\<rparr>"

definition sample_result :: EvaluationResult where
  "sample_result =
     JObject
       [(''band_score'', JNumber 5.5),
        (''feedback'', JString ''Watch your tenses.''),
        (''grammar_corrections'',
           JArray [JObject [(''original'', JString ''I go to school yesterday''),
                            (''corrected'', JString ''I went to school yesterday'')]]),
        (''tips'', JArray [JString ''t1'', JString ''t2'', JString ''t3''])]"

text \<open>
  The session continued: the utterance was sent and answered, a performance report was
  asked for and delivered, and the engine has ended.
\<close>

definition reported_trace :: "event list" where
  "reported_trace =
     heard_trace @
     [ClickStopAndSend 1, ChatSettled (Inr ''Nice! Where is your school?'') 2, RecognitionEnd,
      ClickPerformanceReport, EvalSettled (Inr sample_result)]"

definition reported_world :: World where
  "reported_world =
     \<lparr>app = \<lparr>messages =
               [\<lparr>role = ASSISTANT, content = greeting, timestamp = 0\<rparr>,
                \<lparr>role = USER, content = ''I go to school yesterday'', timestamp = 1\<rparr>,
                \<lparr>role = ASSISTANT, content = ''Nice! Where is your school?'', timestamp = 2\<rparr>],
             speechState = \<lparr>isListening = False, transcript = [],
                             isProcessing = False, error = None\<rparr>,
             evaluation = Some sample_result, isEvaluating = False,
             recognitionRef = True, speechSynthesis = True\<rparr>,
      recActive = False, pendingMedia = 0, pendingChat = 0, pendingEval = 0,
      trace =
        [GetUserMedia, RecognitionStart, RecognitionStop,
         ChatRequest
           [\<lparr>role = ASSISTANT, content = greeting, timestamp = 0\<rparr>,
            \<lparr>role = USER, content = ''I go to school yesterday'', timestamp = 1\<rparr>],
         SynthesisCancel, SynthesisSpeak ''Nice! Where is your school?'',
         EvalRequest ''I go to school yesterday'']\<rparr>"

definition failing_evaluate :: "string \<Rightarrow> error + EvaluationResult" where
  "failing_evaluate t = Inl evaluation_failed"

definition failing_chat :: "Message list \<Rightarrow> error + string" where
  "failing_chat history = Inl (Error ''Failed to get response from LinguaBot.'')"

definition answering_chat :: "Message list \<Rightarrow> error + string" where
  "answering_chat history = Inr ''Nice! Where is your school?''"

text \<open>
  Two clicks on Start Talking before the first permission request settles; the first
  grant starts the capture, the user speaks and sends, the engine ends, and the second
  grant arrives while the reply is awaited.
\<close>

definition overlapping_starts :: "event list" where
  "overlapping_starts =
     [ClickStartTalking, ClickStartTalking, MediaSettled (Resolved ()),
      RecognitionResult 0 [''hello''], ClickStopAndSend 1, RecognitionEnd,
      MediaSettled (Resolved ())]"

text \<open>A service that answers an evaluation request with a single tip.\<close>

definition one_tip_text :: string where
  "one_tip_text =
     ''{'' @ DQ @ ''band_score'' @ DQ @ '':5.5,'' @
     DQ @ ''feedback'' @ DQ @ '':'' @ DQ @ ''Watch your tenses.'' @ DQ @ '','' @
     DQ @ ''grammar_corrections'' @ DQ @ '':[{'' @
       DQ @ ''original'' @ DQ @ '':'' @ DQ @ ''I go to school yesterday'' @ DQ @ '','' @
       DQ @ ''corrected'' @ DQ @ '':'' @ DQ @ ''I went to school yesterday'' @ DQ @ ''}],'' @
     DQ @ ''tips'' @ DQ @ '':['' @ DQ @ ''t1'' @ DQ @ '']}'' @ [LF]"

definition one_tip_result :: EvaluationResult where
  "one_tip_result =
     JObject
       [(''band_score'', JNumber 5.5),
        (''feedback'', JString ''Watch your tenses.''),
        (''grammar_corrections'',
           JArray [JObject [(''original'', JString ''I go to school yesterday''),
                            (''corrected'', JString ''I went to school yesterday'')]]),
        (''tips'', JArray [JString ''t1''])]"

definition one_tip_service :: generateContent where
  "one_tip_service request = Resolved \<lparr>response_text = Some one_tip_text\<rparr>"

definition two_turn_history :: "Message list" where
  "two_turn_history =
     [\<lparr>role = ASSISTANT, content = ''hi'', timestamp = 0\<rparr>,
      \<lparr>role = USER, content = ''I like tea'', timestamp = 1\<rparr>,
      \<lparr>role = ASSISTANT, content = ''good'', timestamp = 2\<rparr>,
      \<lparr>role = USER, content = ''I go to school yesterday'', timestamp = 3\<rparr>,
      \<lparr>role = ASSISTANT, content = ''nice'', timestamp = 4\<rparr>]"

section \<open>Auxiliary facts\<close>

lemmas setter_defs = setSpeechState_def setMessages_def setEvaluation_def setIsEvaluating_def

lemmas handler_defs =
  startListening_call_def startListening_resume_def startListening_catch_def
  stopListeningAndSend_call_def stopListeningAndSend_resume_def
  handleEvaluate_call_def handleEvaluate_resume_def
  onresult_def onerror_def onend_def speakText_def

lemmas guard_defs = start_enabled_def stop_enabled_def report_enabled_def

lemmas world_defs = initial_World_def initial_App_def

lemma trim_sentence: "trim '' I go to school yesterday '' = ''I go to school yesterday''"
  by (simp add: trim_def isWhiteSpace_def)

lemma trim_hello: "trim ''hello'' = ''hello''"
  by (simp add: trim_def isWhiteSpace_def)

lemma heard_world_run: "run heard_trace (initial_World True True 0) = Some heard_world"
  by (simp add: heard_trace_def heard_world_def world_defs guard_defs handler_defs setter_defs Let_def)

lemma silent_world_run: "run silent_trace (initial_World True True 0) = Some silent_world"
  by (simp add: silent_trace_def silent_world_def world_defs guard_defs handler_defs setter_defs Let_def)

lemma run_append: "run (es @ fs) w = (case run es w of None \<Rightarrow> None | Some w' \<Rightarrow> run fs w')"
  by (induction es arbitrary: w) (auto split: option.splits)

lemma reported_world_run: "run reported_trace (initial_World True True 0) = Some reported_world"
  by (simp add: reported_trace_def run_append heard_world_run)
     (simp add: heard_world_def reported_world_def guard_defs handler_defs setter_defs Let_def
        trim_sentence)

lemma step_recognitionRef:
  "step e w = Some w' \<Longrightarrow> recognitionRef (app w') = recognitionRef (app w)"
  by (cases e)
     (auto simp: handler_defs setter_defs Let_def
           split: if_splits settled.splits option.splits sum.splits)

lemma step_listening_recognition:
  assumes "step e w = Some w'"
    and "isListening (speechState (app w)) \<longrightarrow> recognitionRef (app w)"
  shows "isListening (speechState (app w')) \<longrightarrow> recognitionRef (app w')"
  using assms
  by (cases e)
     (auto simp: handler_defs setter_defs Let_def
           split: if_splits settled.splits option.splits sum.splits)

lemma reachable_listening_recognition:
  "reachable w \<Longrightarrow> isListening (speechState (app w)) \<Longrightarrow> recognitionRef (app w)"
proof (induction rule: reachable.induct)
  case (mounted recognition synthesis now)
  then show ?case
    by (simp add: initial_World_def initial_App_def setter_defs Let_def split: if_splits)
next
  case (turn w e w')
  then show ?case using step_listening_recognition by blast
qed

lemma run_reachable:
  "reachable w \<Longrightarrow> run es w = Some w' \<Longrightarrow> reachable w'"
proof (induction es arbitrary: w)
  case Nil
  then show ?case by simp
next
  case (Cons e es)
  then show ?case by (auto split: option.splits intro: reachable.turn)
qed

lemma dropWhile_all_iff: "(\<forall>x\<in>set (dropWhile P xs). P x) \<longleftrightarrow> dropWhile P xs = []"
proof
  assume a: "\<forall>x\<in>set (dropWhile P xs). P x"
  show "dropWhile P xs = []"
  proof (rule ccontr)
    assume ne: "dropWhile P xs \<noteq> []"
    then have "\<not> P (hd (dropWhile P xs))" by (rule hd_dropWhile)
    moreover have "hd (dropWhile P xs) \<in> set (dropWhile P xs)" using ne by (rule hd_in_set)
    ultimately show False using a by blast
  qed
next
  assume "dropWhile P xs = []"
  then show "\<forall>x\<in>set (dropWhile P xs). P x" by (auto dest: set_dropWhileD)
qed

lemma trim_empty_iff: "trim s = [] \<longleftrightarrow> (\<forall>c\<in>set s. isWhiteSpace c)"
proof -
  have "trim s = [] \<longleftrightarrow> (\<forall>x\<in>set (dropWhile isWhiteSpace s). isWhiteSpace x)"
    by (simp add: trim_def)
  also have "\<dots> \<longleftrightarrow> dropWhile isWhiteSpace s = []" by (rule dropWhile_all_iff)
  also have "\<dots> \<longleftrightarrow> (\<forall>c\<in>set s. isWhiteSpace c)" by simp
  finally show ?thesis .
qed

lemma trim_decompose:
  "\<exists>l r. s = l @ trim s @ r \<and> (\<forall>c\<in>set l. isWhiteSpace c) \<and> (\<forall>c\<in>set r. isWhiteSpace c)"
proof -
  let ?d = "dropWhile isWhiteSpace s"
  have 1: "s = takeWhile isWhiteSpace s @ ?d" by simp
  have "rev ?d = takeWhile isWhiteSpace (rev ?d) @ dropWhile isWhiteSpace (rev ?d)" by simp
  then have "?d = rev (dropWhile isWhiteSpace (rev ?d)) @ rev (takeWhile isWhiteSpace (rev ?d))"
    by (metis rev_append rev_rev_ident)
  then have 2: "?d = trim s @ rev (takeWhile isWhiteSpace (rev ?d))"
    by (simp add: trim_def)
  have "s = takeWhile isWhiteSpace s @ trim s @ rev (takeWhile isWhiteSpace (rev ?d))"
    using 1 2 by metis
  moreover have "\<forall>c\<in>set (takeWhile isWhiteSpace s). isWhiteSpace c"
    by (auto dest: set_takeWhileD)
  moreover have "\<forall>c\<in>set (rev (takeWhile isWhiteSpace (rev ?d))). isWhiteSpace c"
    by (auto dest: set_takeWhileD)
  ultimately show ?thesis by blast
qed

lemma trim_ends:
  assumes "trim s \<noteq> []"
  shows "\<not> isWhiteSpace (hd (trim s)) \<and> \<not> isWhiteSpace (last (trim s))"
proof -
  let ?d = "dropWhile isWhiteSpace s"
  let ?e = "dropWhile isWhiteSpace (rev ?d)"
  have ne: "?e \<noteq> []" using assms by (simp add: trim_def)
  then have h: "\<not> isWhiteSpace (hd ?e)" by (rule hd_dropWhile)
  have "last (trim s) = hd ?e" using ne by (simp add: trim_def last_rev)
  then have l: "\<not> isWhiteSpace (last (trim s))" using h by simp
  have dne: "?d \<noteq> []"
  proof
    assume "?d = []"
    then have "rev ?d = []" by simp
    then have "?e = []" by (auto dest: set_dropWhileD)
    then show False using ne by blast
  qed
  then have hd_d: "\<not> isWhiteSpace (hd ?d)" by (rule hd_dropWhile)
  obtain r where "?d = trim s @ r"
    by (metis rev_append rev_rev_ident takeWhile_dropWhile_id trim_def)
  then have "hd (trim s) = hd ?d" using assms by (metis hd_append2)
  then show ?thesis using hd_d l by simp
qed


lemma heard_world_reachable: "reachable heard_world"
  using run_reachable [OF reachable.mounted heard_world_run] .

lemma silent_world_reachable: "reachable silent_world"
  using run_reachable [OF reachable.mounted silent_world_run] .

lemma reported_world_reachable: "reachable reported_world"
  using run_reachable [OF reachable.mounted reported_world_run] .

lemma stop_enabled_recognition:
  "reachable w \<Longrightarrow> stop_enabled (app w) \<Longrightarrow> recognitionRef (app w)"
  by (simp add: stop_enabled_def reachable_listening_recognition)

lemma call_commits:
  assumes "recognitionRef a" and "trim (transcript (speechState a)) \<noteq> []"
  shows "stopListeningAndSend_call t a =
    (a\<lparr>messages := messages a @ [\<lparr>role = USER, content = trim (transcript (speechState a)), timestamp = t\<rparr>],
       speechState := (speechState a)\<lparr>isListening := False, isProcessing := True, transcript := []\<rparr>,
       evaluation := None\<rparr>,
     [RecognitionStop, ChatRequest (messages a @ [\<lparr>role = USER, content = trim (transcript (speechState a)), timestamp = t\<rparr>])])"
  using assms by (simp add: stopListeningAndSend_call_def setter_defs Let_def)

lemma call_nothing_heard:
  assumes "recognitionRef a" and "trim (transcript (speechState a)) = []"
  shows "stopListeningAndSend_call t a =
    (a\<lparr>speechState := (speechState a)\<lparr>isListening := False, error := Some nothing_heard_error\<rparr>\<rparr>,
     [RecognitionStop])"
  using assms by (simp add: stopListeningAndSend_call_def setter_defs Let_def)

lemma find_last_user:
  assumes "role m = USER" and "\<forall>x\<in>set later. role x \<noteq> USER"
  shows "find (\<lambda>m. role m = USER) (rev (earlier @ m # later)) = Some m"
proof -
  have "find (\<lambda>m. role m = USER) (rev later @ m # rev earlier) = Some m"
    using assms by (induction later rule: rev_induct) auto
  then show ?thesis by simp
qed

lemma find_no_user:
  "\<forall>x\<in>set ms. role x \<noteq> USER \<Longrightarrow> find (\<lambda>m. role m = USER) (rev ms) = None"
  by (simp add: find_None_iff)

lemma startListening_evaluation:
  "evaluation (fst (startListening media started a)) = evaluation a"
  by (simp add: startListening_def startListening_call_def startListening_resume_def
        startListening_catch_def setter_defs Let_def split: settled.splits option.splits)

lemmas json_defs = JSON_parse_def skip_ws_def json_ws_def parse_number_def is_digit_def
  digits_value_def

lemma one_tip_text_parses: "JSON_parse (trim one_tip_text) = Some one_tip_result"
proof -
  have t: "trim one_tip_text = butlast one_tip_text"
    by (simp add: one_tip_text_def DQ_def LF_def trim_def isWhiteSpace_def)
  show ?thesis
    unfolding t
    by (simp add: one_tip_text_def one_tip_result_def DQ_def LF_def json_defs Let_def)
qed

lemma conforms_tips:
  assumes "conforms evaluation_schema r"
  shows "tips_of r \<noteq> None"
proof -
  obtain ms where r: "r = JObject ms"
    using assms by (cases r) (simp_all add: evaluation_schema_def)
  from assms obtain v where v: "field ''tips'' r = Some v"
    by (auto simp: evaluation_schema_def r)
  with assms have "conforms (TArray TString) v"
    by (simp add: evaluation_schema_def r)
  then obtain vs where vs: "v = JArray vs" and all: "list_all (conforms TString) vs"
    by (cases v) simp_all
  have "list_all (\<lambda>x. string_of x \<noteq> None) vs"
    using all by (induction vs) (auto split: json.splits)
  then show ?thesis by (simp add: tips_of_def v vs)
qed

lemma serial_step_inv:
  assumes "serial_step e w = Some w'" and "serial_inv w"
  shows "serial_inv w'"
  using assms
  by (cases e)
     (auto simp: serial_step_def serial_inv_def guard_defs handler_defs setter_defs Let_def
           split: if_splits settled.splits option.splits sum.splits)

lemma answered_world_run: "run answered_trace heard_world = Some answered_world"
  by (simp add: answered_trace_def heard_world_def answered_world_def guard_defs handler_defs
        setter_defs Let_def trim_sentence)

lemma late_result_world_run: "run late_result_trace heard_world = Some late_result_world"
  by (simp add: late_result_trace_def heard_world_def late_result_world_def guard_defs
        handler_defs setter_defs Let_def trim_sentence)

lemma waiting_step_keeps_turn:
  assumes "step e w = Some w'" and "waiting e"
    and "isProcessing (speechState (app w))"
  shows "isProcessing (speechState (app w')) \<and> messages (app w') = messages (app w)
         \<and> pendingChat w' = pendingChat w
         \<and> (\<not> is_result e \<longrightarrow>
              transcript (speechState (app w')) = transcript (speechState (app w)))"
  using assms
  by (cases e)
     (auto simp: waiting_def guard_defs handler_defs setter_defs Let_def
           split: if_splits settled.splits option.splits sum.splits)

lemma waiting_run_keeps_turn:
  assumes "run es w = Some w'" and "list_all waiting es"
    and "isProcessing (speechState (app w))"
  shows "isProcessing (speechState (app w')) \<and> messages (app w') = messages (app w)
         \<and> pendingChat w' = pendingChat w
         \<and> (list_all (\<lambda>e. \<not> is_result e) es \<longrightarrow>
              transcript (speechState (app w')) = transcript (speechState (app w)))"
  using assms
proof (induction es arbitrary: w)
  case Nil
  then show ?case by simp
next
  case (Cons e es)
  from Cons.prems(1) obtain v where v: "step e w = Some v" and r: "run es v = Some w'"
    by (auto split: option.splits)
  from Cons.prems(2) have we: "waiting e" and wes: "list_all waiting es" by simp_all
  note k = waiting_step_keeps_turn [OF v we Cons.prems(3)]
  from k have pv: "isProcessing (speechState (app v))" by simp
  note ih = Cons.IH [OF r wes pv]
  show ?case using k ih by simp
qed

section \<open>Conversation Client\<close>

text \<open>
  Claim C8. Whatever the history, when the service answers, \<open>getGeminiChatResponse\<close>
  returns the reply text if it is non-empty and the fixed fallback sentence if the text
  is empty or missing, and the returned string is never empty; when the service fails
  the call fails, so every success carries a non-empty string.
\<close>

theorem getGeminiChatResponse_reply_or_fallback:
  "getGeminiChatResponse generate history =
     (case generate (chat_request history) of
        Rejected n \<Rightarrow> Inl (Error ''Failed to get response from LinguaBot.'')
      | Resolved response \<Rightarrow>
          Inr (if response_text response = None \<or> response_text response = Some []
               then chat_fallback else the (response_text response)))
   \<and> chat_fallback \<noteq> []
   \<and> getGeminiChatResponse generate history \<noteq> Inr []"
  by (auto simp: getGeminiChatResponse_def chat_fallback_def
           split: settled.splits option.splits)

section \<open>Stop and send\<close>

text \<open>
  The theorems of this section are about a stop-and-send action as the user can take it:
  in a world the event loop can reach, with the Stop and Send button on the screen.
  There the recognition object exists, so the handler does not return at once.
\<close>

text \<open>
  Claim C2, as the code has it. Take a stop-and-send click with no Conversation Client
  call in flight and a transcript that is non-empty after trimming, and let the call
  succeed, with no second Stop and Send click before the reply. The click appends the
  USER message and sets the transcript to the empty string. When the reply arrives,
  \<open>messages\<close> is the history before the click followed by exactly two entries, the USER
  message and then the ASSISTANT message, whatever else the event loop ran in between.
  The transcript is empty at that point if the engine delivered no result after the
  click; \<open>onresult\<close> is not guarded and writes the transcript whenever it is called.
\<close>

theorem stop_and_send_turn:
  assumes "reachable w" and "stop_enabled (app w)" and "pendingChat w = 0"
    and "trim (transcript (speechState (app w))) \<noteq> []"
    and "step (ClickStopAndSend t1) w = Some w1"
    and "run es w1 = Some w2" and "list_all waiting es"
    and "step (ChatSettled (Inr reply) t2) w2 = Some w3"
  shows "messages (app w1) = messages (app w) @
           [\<lparr>role = USER, content = trim (transcript (speechState (app w))), timestamp = t1\<rparr>]
         \<and> transcript (speechState (app w1)) = []
         \<and> pendingChat w1 = 1
         \<and> messages (app w3) = messages (app w) @
             [\<lparr>role = USER, content = trim (transcript (speechState (app w))), timestamp = t1\<rparr>,
              \<lparr>role = ASSISTANT, content = reply, timestamp = t2\<rparr>]
         \<and> (list_all (\<lambda>e. \<not> is_result e) es \<longrightarrow> transcript (speechState (app w3)) = [])"
proof -
  let ?u = "\<lparr>role = USER, content = trim (transcript (speechState (app w))), timestamp = t1\<rparr>"
  have rec: "recognitionRef (app w)"
    using assms(1,2) by (rule stop_enabled_recognition)
  have w1: "messages (app w1) = messages (app w) @ [?u]"
      "transcript (speechState (app w1)) = []"
      "pendingChat w1 = 1"
      "isProcessing (speechState (app w1))"
    using assms(2,3,5) by (auto simp: call_commits [OF rec assms(4)])
  note k = waiting_run_keeps_turn [OF assms(6,7) w1(4)]
  have w3: "messages (app w3) = messages (app w2) @
        [\<lparr>role = ASSISTANT, content = reply, timestamp = t2\<rparr>]"
      "transcript (speechState (app w3)) = transcript (speechState (app w2))"
    using assms(8)
    by (auto simp: stopListeningAndSend_resume_def setter_defs Let_def split: if_splits)
  show ?thesis using w1 k w3 by simp
qed

text \<open>
  The theorem at the session that heard a sentence, where the engine ends while the
  reply is awaited.
\<close>

theorem stop_and_send_turn_witness:
  "reachable heard_world \<and> stop_enabled (app heard_world) \<and> pendingChat heard_world = 0
   \<and> trim (transcript (speechState (app heard_world))) \<noteq> []
   \<and> run answered_trace heard_world = Some answered_world
   \<and> messages (app answered_world) =
        [\<lparr>role = ASSISTANT, content = greeting, timestamp = 0\<rparr>,
         \<lparr>role = USER, content = ''I go to school yesterday'', timestamp = 1\<rparr>,
         \<lparr>role = ASSISTANT, content = ''Nice! Where is your school?'', timestamp = 2\<rparr>]
   \<and> transcript (speechState (app answered_world)) = []"
proof -
  have en: "stop_enabled (app heard_world)"
    by (simp add: stop_enabled_def heard_world_def)
  have pc: "pendingChat heard_world = 0"
    by (simp add: heard_world_def)
  have ne: "trim (transcript (speechState (app heard_world))) \<noteq> []"
    by (simp add: heard_world_def trim_sentence)
  from answered_world_run obtain w1 w2
    where s1: "step (ClickStopAndSend 1) heard_world = Some w1"
      and s2: "run [RecognitionEnd] w1 = Some w2"
      and s3: "step (ChatSettled (Inr ''Nice! Where is your school?'') 2) w2 = Some answered_world"
    by (auto simp: answered_trace_def split: option.splits)
  have wt: "list_all waiting [RecognitionEnd]"
    by (simp add: waiting_def)
  have nr: "list_all (\<lambda>e. \<not> is_result e) [RecognitionEnd]"
    by simp
  have "messages (app answered_world) = messages (app heard_world) @
          [\<lparr>role = USER, content = trim (transcript (speechState (app heard_world))), timestamp = 1\<rparr>,
           \<lparr>role = ASSISTANT, content = ''Nice! Where is your school?'', timestamp = 2\<rparr>]
        \<and> transcript (speechState (app answered_world)) = []"
    using stop_and_send_turn [OF heard_world_reachable en pc ne s1 s2 wt s3] nr by blast
  then show ?thesis
    using heard_world_reachable en pc ne answered_world_run
    by (simp add: heard_world_def trim_sentence)
qed

text \<open>
  Claim C2 as stated fails at the same session when the engine delivers its result after
  \<open>stop()\<close>: the turn succeeds and \<open>messages\<close> has grown by two, but the transcript
  is not empty.
\<close>

theorem late_result_refills_transcript_counterexample:
  "reachable heard_world \<and> stop_enabled (app heard_world) \<and> pendingChat heard_world = 0
   \<and> trim (transcript (speechState (app heard_world))) = ''I go to school yesterday''
   \<and> run late_result_trace heard_world = Some late_result_world
   \<and> length (messages (app late_result_world)) = length (messages (app heard_world)) + 2
   \<and> transcript (speechState (app late_result_world)) = '' I go to school yesterday ''
   \<and> transcript (speechState (app late_result_world)) \<noteq> []"
  using heard_world_reachable late_result_world_run
  by (simp add: stop_enabled_def heard_world_def late_result_world_def trim_sentence)

text \<open>
  Claim C7. A stop-and-send action whose transcript is empty or holds only whitespace
  leaves \<open>messages\<close> unchanged, makes no call but the engine's \<open>stop()\<close> (so the
  Conversation Client is not invoked), and sets the error to the sentence that nothing
  was heard.
\<close>

theorem stop_and_send_nothing_heard:
  assumes "reachable w" and "stop_enabled (app w)"
    and "\<forall>c\<in>set (transcript (speechState (app w))). isWhiteSpace c"
  shows "messages (fst (stopListeningAndSend chat t1 t2 (app w))) = messages (app w)
         \<and> snd (stopListeningAndSend chat t1 t2 (app w)) = [RecognitionStop]
         \<and> error (speechState (fst (stopListeningAndSend chat t1 t2 (app w))))
             = Some nothing_heard_error"
proof -
  have rec: "recognitionRef (app w)"
    using assms(1,2) by (rule stop_enabled_recognition)
  have empty: "trim (transcript (speechState (app w))) = []"
    using assms(3) by (simp add: trim_empty_iff)
  show ?thesis
    by (simp add: stopListeningAndSend_def call_nothing_heard [OF rec empty])
qed

text \<open>The theorem at the session that heard two blanks.\<close>

theorem stop_and_send_nothing_heard_witness:
  "reachable silent_world \<and> stop_enabled (app silent_world)
   \<and> list_all isWhiteSpace (transcript (speechState (app silent_world)))
   \<and> transcript (speechState (app silent_world)) = ''  ''
   \<and> messages (fst (stopListeningAndSend answering_chat 1 2 (app silent_world)))
       = [\<lparr>role = ASSISTANT, content = greeting, timestamp = 0\<rparr>]
   \<and> snd (stopListeningAndSend answering_chat 1 2 (app silent_world)) = [RecognitionStop]
   \<and> error (speechState (fst (stopListeningAndSend answering_chat 1 2 (app silent_world))))
       = Some ''I didn't hear anything. Try clicking 'Start Talking' again.''"
proof -
  have en: "stop_enabled (app silent_world)"
    by (simp add: stop_enabled_def silent_world_def)
  have ws: "\<forall>c\<in>set (transcript (speechState (app silent_world))). isWhiteSpace c"
    by (simp add: silent_world_def isWhiteSpace_def)
  show ?thesis
    using stop_and_send_nothing_heard [OF silent_world_reachable en ws, of answering_chat 1 2]
      en ws silent_world_reachable
    by (simp add: silent_world_def nothing_heard_error_def list_all_iff)
qed

text \<open>
  Claim C9. When a stop-and-send action has appended its USER message and the
  Conversation Client call fails, \<open>messages\<close> is the history before the action followed
  by that one USER message (nothing is rolled back), the connectivity error is set, and
  \<open>isProcessing\<close> is false again.
\<close>

theorem stop_and_send_failure_keeps_user_message:
  assumes "reachable w" and "stop_enabled (app w)"
    and "trim (transcript (speechState (app w))) \<noteq> []"
    and "chat (messages (app w) @
           [\<lparr>role = USER, content = trim (transcript (speechState (app w))), timestamp = t1\<rparr>])
         = Inl e"
  shows "messages (fst (stopListeningAndSend chat t1 t2 (app w))) =
           messages (app w) @
             [\<lparr>role = USER, content = trim (transcript (speechState (app w))), timestamp = t1\<rparr>]
         \<and> error (speechState (fst (stopListeningAndSend chat t1 t2 (app w)))) = Some connect_error
         \<and> \<not> isProcessing (speechState (fst (stopListeningAndSend chat t1 t2 (app w))))"
proof -
  have rec: "recognitionRef (app w)"
    using assms(1,2) by (rule stop_enabled_recognition)
  show ?thesis
    using assms(4)
    by (simp add: stopListeningAndSend_def call_commits [OF rec assms(3)]
          stopListeningAndSend_resume_def setter_defs)
qed

text \<open>The theorem at the session that heard a sentence, with the service failing.\<close>

theorem stop_and_send_failure_keeps_user_message_witness:
  "reachable heard_world \<and> stop_enabled (app heard_world)
   \<and> trim (transcript (speechState (app heard_world))) \<noteq> []
   \<and> messages (fst (stopListeningAndSend failing_chat 1 2 (app heard_world))) =
        [\<lparr>role = ASSISTANT, content = greeting, timestamp = 0\<rparr>,
         \<lparr>role = USER, content = ''I go to school yesterday'', timestamp = 1\<rparr>]
   \<and> error (speechState (fst (stopListeningAndSend failing_chat 1 2 (app heard_world))))
       = Some ''Failed to connect to LinguaBot service. Please check your connection.''
   \<and> \<not> isProcessing (speechState (fst (stopListeningAndSend failing_chat 1 2 (app heard_world))))"
proof -
  have en: "stop_enabled (app heard_world)"
    by (simp add: stop_enabled_def heard_world_def)
  have ne: "trim (transcript (speechState (app heard_world))) \<noteq> []"
    by (simp add: heard_world_def trim_sentence)
  have ch: "failing_chat (messages (app heard_world) @
      [\<lparr>role = USER, content = trim (transcript (speechState (app heard_world))), timestamp = 1\<rparr>])
      = Inl (Error ''Failed to get response from LinguaBot.'')"
    by (simp add: failing_chat_def)
  show ?thesis
    using stop_and_send_failure_keeps_user_message [where w = heard_world and chat = failing_chat
        and ?t1.0 = 1 and ?t2.0 = 2, OF heard_world_reachable en ne ch] en ne
      heard_world_reachable
    by (simp add: heard_world_def trim_sentence connect_error_def)
qed

text \<open>
  Claim C10. When a stop-and-send action commits an utterance, the USER message it
  appends right after the earlier history carries the trimmed transcript: the transcript
  is that content between a run of whitespace on the left and one on the right, and the
  content neither starts nor ends with whitespace.
\<close>

theorem committed_content_is_trimmed:
  assumes "reachable w" and "stop_enabled (app w)"
    and "trim (transcript (speechState (app w))) \<noteq> []"
  shows "\<exists>u l r.
           take (Suc (length (messages (app w))))
               (messages (fst (stopListeningAndSend chat t1 t2 (app w))))
             = messages (app w) @ [u]
         \<and> role u = USER
         \<and> content u = trim (transcript (speechState (app w)))
         \<and> transcript (speechState (app w)) = l @ content u @ r
         \<and> list_all isWhiteSpace l \<and> list_all isWhiteSpace r
         \<and> \<not> isWhiteSpace (hd (content u)) \<and> \<not> isWhiteSpace (last (content u))"
proof -
  let ?s = "transcript (speechState (app w))"
  let ?u = "\<lparr>role = USER, content = trim ?s, timestamp = t1\<rparr>"
  have rec: "recognitionRef (app w)"
    using assms(1,2) by (rule stop_enabled_recognition)
  have "take (Suc (length (messages (app w))))
          (messages (fst (stopListeningAndSend chat t1 t2 (app w)))) = messages (app w) @ [?u]"
    by (simp add: stopListeningAndSend_def call_commits [OF rec assms(3)]
          stopListeningAndSend_resume_def setter_defs split: sum.splits)
  moreover obtain l r where "?s = l @ trim ?s @ r"
      and "\<forall>c\<in>set l. isWhiteSpace c" and "\<forall>c\<in>set r. isWhiteSpace c"
    using trim_decompose [of ?s] by blast
  moreover have "\<not> isWhiteSpace (hd (trim ?s)) \<and> \<not> isWhiteSpace (last (trim ?s))"
    using assms(3) by (rule trim_ends)
  ultimately show ?thesis
    by (intro exI [of _ ?u] exI [of _ l] exI [of _ r]) (simp add: list_all_iff)
qed

text \<open>The theorem at the session that heard a sentence with a blank on either side.\<close>

theorem committed_content_is_trimmed_witness:
  "reachable heard_world \<and> stop_enabled (app heard_world)
   \<and> transcript (speechState (app heard_world)) = '' I go to school yesterday ''
   \<and> (\<exists>u. take 2 (messages (fst (stopListeningAndSend answering_chat 1 2 (app heard_world))))
             = messages (app heard_world) @ [u]
          \<and> content u = ''I go to school yesterday'')"
proof -
  have en: "stop_enabled (app heard_world)"
    by (simp add: stop_enabled_def heard_world_def)
  have ne: "trim (transcript (speechState (app heard_world))) \<noteq> []"
    by (simp add: heard_world_def trim_sentence)
  have len: "Suc (length (messages (app heard_world))) = 2"
    by (simp add: heard_world_def)
  have tr: "trim (transcript (speechState (app heard_world))) = ''I go to school yesterday''"
    by (simp add: heard_world_def trim_sentence)
  from committed_content_is_trimmed [where w = heard_world and chat = answering_chat
      and ?t1.0 = 1 and ?t2.0 = 2, OF heard_world_reachable en ne]
  obtain u where "take (Suc (length (messages (app heard_world))))
               (messages (fst (stopListeningAndSend answering_chat 1 2 (app heard_world))))
             = messages (app heard_world) @ [u]"
      and "content u = trim (transcript (speechState (app heard_world)))"
    by blast
  then have "\<exists>u. take 2 (messages (fst (stopListeningAndSend answering_chat 1 2 (app heard_world))))
             = messages (app heard_world) @ [u] \<and> content u = ''I go to school yesterday''"
    using len tr by auto
  moreover have "transcript (speechState (app heard_world)) = '' I go to school yesterday ''"
    by (simp add: heard_world_def)
  ultimately show ?thesis using heard_world_reachable en by blast
qed

section \<open>Performance report\<close>

text \<open>
  Claim C3. A performance-report action on a history without a USER message leaves the
  stored evaluation as it was (none stays none), sets the error that nothing was spoken
  yet and calls nothing. On a history with a USER message it calls the Evaluation Client
  once, on the content of the USER message after which no USER message follows, and ends
  in the state that the client's answer for that content gives.
\<close>

theorem report_uses_most_recent_user_message:
  "((\<forall>x\<in>set (messages a). role x \<noteq> USER) \<longrightarrow>
       evaluation (fst (handleEvaluate evaluate a)) = evaluation a
     \<and> error (speechState (fst (handleEvaluate evaluate a))) = Some not_spoken_error
     \<and> snd (handleEvaluate evaluate a) = [])
   \<and> (messages a = earlier @ m # later \<and> role m = USER \<and> (\<forall>x\<in>set later. role x \<noteq> USER) \<longrightarrow>
       snd (handleEvaluate evaluate a) = [EvalRequest (content m)]
     \<and> fst (handleEvaluate evaluate a)
         = handleEvaluate_resume (evaluate (content m)) (fst (handleEvaluate_call a)))"
proof (intro conjI impI)
  assume none: "\<forall>x\<in>set (messages a). role x \<noteq> USER"
  have call: "handleEvaluate_call a
      = (setSpeechState (\<lambda>prev. prev\<lparr>error := Some not_spoken_error\<rparr>) a, [])"
    by (simp add: handleEvaluate_call_def find_no_user [OF none])
  show "evaluation (fst (handleEvaluate evaluate a)) = evaluation a"
    by (simp add: handleEvaluate_def call setter_defs)
  show "error (speechState (fst (handleEvaluate evaluate a))) = Some not_spoken_error"
    by (simp add: handleEvaluate_def call setter_defs)
  show "snd (handleEvaluate evaluate a) = []"
    by (simp add: handleEvaluate_def call)
next
  assume h: "messages a = earlier @ m # later \<and> role m = USER \<and> (\<forall>x\<in>set later. role x \<noteq> USER)"
  then have f: "find (\<lambda>m. role m = USER) (rev (messages a)) = Some m"
    using find_last_user [of m later earlier] by simp
  show "snd (handleEvaluate evaluate a) = [EvalRequest (content m)]"
    by (simp add: handleEvaluate_def handleEvaluate_call_def f)
  show "fst (handleEvaluate evaluate a)
         = handleEvaluate_resume (evaluate (content m)) (fst (handleEvaluate_call a))"
    by (simp add: handleEvaluate_def handleEvaluate_call_def f)
qed

text \<open>
  The theorem at the freshly mounted component, and at a history with two USER messages,
  where the later one is evaluated.
\<close>

theorem report_uses_most_recent_user_message_witness:
  "evaluation (fst (handleEvaluate failing_evaluate (initial_App True True 0))) = None
   \<and> error (speechState (fst (handleEvaluate failing_evaluate (initial_App True True 0))))
       = Some ''You haven't spoken yet! Say something first.''
   \<and> snd (handleEvaluate failing_evaluate (initial_App True True 0)) = []
   \<and> snd (handleEvaluate failing_evaluate ((initial_App True True 0)\<lparr>messages := two_turn_history\<rparr>))
       = [EvalRequest ''I go to school yesterday'']"
proof -
  let ?a = "initial_App True True 0"
  let ?b = "?a\<lparr>messages := two_turn_history\<rparr>"
  let ?m = "\<lparr>role = USER, content = ''I go to school yesterday'', timestamp = 3\<rparr>"
  have none: "\<forall>x\<in>set (messages ?a). role x \<noteq> USER"
    by (simp add: initial_App_def)
  have some: "messages ?b = take 3 two_turn_history @ ?m # [\<lparr>role = ASSISTANT, content = ''nice'', timestamp = 4\<rparr>]
      \<and> role ?m = USER
      \<and> (\<forall>x\<in>set [\<lparr>role = ASSISTANT, content = ''nice'', timestamp = 4\<rparr>]. role x \<noteq> USER)"
    by (simp add: two_turn_history_def)
  have first: "evaluation (fst (handleEvaluate failing_evaluate ?a)) = evaluation ?a
     \<and> error (speechState (fst (handleEvaluate failing_evaluate ?a))) = Some not_spoken_error
     \<and> snd (handleEvaluate failing_evaluate ?a) = []"
    using report_uses_most_recent_user_message [where a = ?a and evaluate = failing_evaluate]
      none by blast
  have second: "snd (handleEvaluate failing_evaluate ?b) = [EvalRequest (content ?m)]"
    using report_uses_most_recent_user_message [where a = ?b and evaluate = failing_evaluate
      and m = ?m and earlier = "take 3 two_turn_history"
      and later = "[\<lparr>role = ASSISTANT, content = ''nice'', timestamp = 4\<rparr>]"] some
    by blast
  have "evaluation ?a = None" by (simp add: initial_App_def)
  then show ?thesis using first second by (simp add: not_spoken_error_def)
qed

text \<open>
  Claim C5, as the code has it. A performance-report action that invokes the Evaluation
  Client stores the returned result on success; on failure it leaves the stored
  evaluation as it was and sets the error that the evaluation could not be done.
\<close>

theorem report_stores_or_keeps:
  assumes "eval_requested (snd (handleEvaluate_call a)) = Some t"
  shows "case evaluate t of
           Inr result \<Rightarrow> evaluation (fst (handleEvaluate evaluate a)) = Some result
         | Inl e \<Rightarrow> evaluation (fst (handleEvaluate evaluate a)) = evaluation a
                   \<and> error (speechState (fst (handleEvaluate evaluate a))) = Some evaluate_error"
proof -
  obtain m where f: "find (\<lambda>m. role m = USER) (rev (messages a)) = Some m"
    using assms by (cases "find (\<lambda>m. role m = USER) (rev (messages a))")
      (simp_all add: handleEvaluate_call_def)
  then have t: "t = content m"
    using assms by (simp add: handleEvaluate_call_def)
  show ?thesis
    by (simp add: handleEvaluate_def handleEvaluate_call_def f t handleEvaluate_resume_def
          setter_defs split: sum.splits)
qed

text \<open>
  The theorem at the session that already holds a report: a second report that succeeds
  replaces it, one that fails keeps it.
\<close>

theorem report_stores_or_keeps_witness:
  "eval_requested (snd (handleEvaluate_call (app reported_world))) = Some ''I go to school yesterday''
   \<and> evaluation (fst (handleEvaluate (\<lambda>t. Inr one_tip_result) (app reported_world)))
       = Some one_tip_result
   \<and> evaluation (fst (handleEvaluate failing_evaluate (app reported_world))) = Some sample_result
   \<and> error (speechState (fst (handleEvaluate failing_evaluate (app reported_world))))
       = Some ''Could not evaluate your speaking at this time.''"
proof -
  have req: "eval_requested (snd (handleEvaluate_call (app reported_world)))
      = Some ''I go to school yesterday''"
    by (simp add: handleEvaluate_call_def reported_world_def)
  have ok: "evaluation (fst (handleEvaluate (\<lambda>t. Inr one_tip_result) (app reported_world)))
       = Some one_tip_result"
    using report_stores_or_keeps [where evaluate = "\<lambda>t. Inr one_tip_result", OF req] by simp
  have ko: "evaluation (fst (handleEvaluate failing_evaluate (app reported_world)))
        = evaluation (app reported_world)
     \<and> error (speechState (fst (handleEvaluate failing_evaluate (app reported_world))))
        = Some evaluate_error"
    using report_stores_or_keeps [where evaluate = failing_evaluate, OF req]
    by (simp add: failing_evaluate_def)
  have "evaluation (app reported_world) = Some sample_result"
    by (simp add: reported_world_def)
  then show ?thesis using req ok ko by (simp add: evaluate_error_def)
qed

text \<open>
  Claim C5 as stated fails there: the session holds a report, the button is enabled, the
  Evaluation Client is invoked and fails, and the stored evaluation is still the earlier
  result, not none.
\<close>

theorem failed_report_keeps_evaluation_counterexample:
  "reachable reported_world \<and> report_enabled (app reported_world)
   \<and> snd (handleEvaluate failing_evaluate (app reported_world))
       = [EvalRequest ''I go to school yesterday'']
   \<and> failing_evaluate ''I go to school yesterday'' = Inl evaluation_failed
   \<and> evaluation (fst (handleEvaluate failing_evaluate (app reported_world))) = Some sample_result
   \<and> evaluation (fst (handleEvaluate failing_evaluate (app reported_world))) \<noteq> None"
  using reported_world_reachable
  by (simp add: report_enabled_def reported_world_def handleEvaluate_def handleEvaluate_call_def
        handleEvaluate_resume_def failing_evaluate_def setter_defs)

section \<open>Start talking and the stored evaluation\<close>

text \<open>
  Claim C4, as the code has it. \<open>startListening\<close> leaves the stored evaluation as it
  was, whatever the permission request and the engine do; it is the stop-and-send action
  committing a non-empty utterance that sets it to none.
\<close>

theorem evaluation_cleared_by_send_not_by_start:
  assumes "reachable w" and "stop_enabled (app w)"
    and "trim (transcript (speechState (app w))) \<noteq> []"
  shows "evaluation (fst (startListening media started a)) = evaluation a
         \<and> evaluation (fst (stopListeningAndSend chat t1 t2 (app w))) = None"
proof -
  have rec: "recognitionRef (app w)"
    using assms(1,2) by (rule stop_enabled_recognition)
  have "evaluation (fst (stopListeningAndSend chat t1 t2 (app w))) = None"
    by (simp add: stopListeningAndSend_def call_commits [OF rec assms(3)]
          stopListeningAndSend_resume_def setter_defs split: sum.splits)
  then show ?thesis by (simp add: startListening_evaluation)
qed

text \<open>The theorem at the session that heard a sentence, and at the one holding a report.\<close>

theorem evaluation_cleared_by_send_not_by_start_witness:
  "reachable heard_world \<and> stop_enabled (app heard_world)
   \<and> trim (transcript (speechState (app heard_world))) \<noteq> []
   \<and> evaluation (fst (startListening (Resolved ()) None (app reported_world))) = Some sample_result
   \<and> evaluation (fst (stopListeningAndSend answering_chat 1 2 (app heard_world))) = None"
proof -
  have en: "stop_enabled (app heard_world)"
    by (simp add: stop_enabled_def heard_world_def)
  have ne: "trim (transcript (speechState (app heard_world))) \<noteq> []"
    by (simp add: heard_world_def trim_sentence)
  have "evaluation (app reported_world) = Some sample_result"
    by (simp add: reported_world_def)
  then show ?thesis
    using evaluation_cleared_by_send_not_by_start [where w = heard_world
        and a = "app reported_world" and media = "Resolved ()" and started = None
        and chat = answering_chat and ?t1.0 = 1 and ?t2.0 = 2, OF heard_world_reachable en ne]
      en ne heard_world_reachable
    by simp
qed

text \<open>
  Claim C4 as stated fails at the session holding a report: Start Talking is enabled,
  and after \<open>startListening\<close> has run the evaluation is still there.
\<close>

theorem start_keeps_evaluation_counterexample:
  "reachable reported_world \<and> start_enabled (app reported_world)
   \<and> evaluation (app reported_world) = Some sample_result
   \<and> evaluation (fst (startListening (Resolved ()) None (app reported_world))) = Some sample_result
   \<and> evaluation (fst (startListening (Resolved ()) None (app reported_world))) \<noteq> None"
  using reported_world_reachable
  by (simp add: start_enabled_def reported_world_def startListening_def startListening_call_def
        startListening_resume_def setter_defs Let_def)

section \<open>Evaluation Client\<close>

text \<open>
  Claim C6, as the code has it. A successful \<open>evaluateSpeaking\<close> returns exactly the
  value that the response text, trimmed, parses to; nothing is checked. If that value
  conforms to the response schema of the request, its tips are a list of strings; its
  length is whatever the service sent.
\<close>

theorem evaluateSpeaking_returns_parsed_text:
  assumes "evaluateSpeaking parse generate t = Inr r"
  shows "\<exists>response jsonText.
           generate (evaluation_request t) = Resolved response
         \<and> response_text response = Some jsonText
         \<and> parse (trim jsonText) = Some r
         \<and> (conforms evaluation_schema r \<longrightarrow> tips_of r \<noteq> None)"
  using assms conforms_tips [of r]
  by (auto simp: evaluateSpeaking_def split: settled.splits option.splits)

text \<open>The theorem at the service that answers with one tip.\<close>

theorem evaluateSpeaking_returns_parsed_text_witness:
  "evaluateSpeaking JSON_parse one_tip_service ''I go to school yesterday'' = Inr one_tip_result
   \<and> (\<exists>response jsonText.
         one_tip_service (evaluation_request ''I go to school yesterday'') = Resolved response
       \<and> response_text response = Some jsonText
       \<and> JSON_parse (trim jsonText) = Some one_tip_result)
   \<and> conforms evaluation_schema one_tip_result
   \<and> tips_of one_tip_result \<noteq> None"
proof -
  have ok: "evaluateSpeaking JSON_parse one_tip_service ''I go to school yesterday'' = Inr one_tip_result"
    by (simp add: evaluateSpeaking_def one_tip_service_def one_tip_text_parses)
  have c: "conforms evaluation_schema one_tip_result"
    by (simp add: evaluation_schema_def one_tip_result_def field_def)
  show ?thesis
    using evaluateSpeaking_returns_parsed_text [OF ok] ok c by auto
qed

text \<open>
  Claim C6 as stated fails at that service: the call succeeds, the result conforms to
  the response schema, and its tips are one string, not three.
\<close>

theorem evaluateSpeaking_one_tip_counterexample:
  "evaluateSpeaking JSON_parse one_tip_service ''I go to school yesterday'' = Inr one_tip_result
   \<and> conforms evaluation_schema one_tip_result
   \<and> tips_of one_tip_result = Some [''t1'']
   \<and> length (the (tips_of one_tip_result)) \<noteq> 3"
proof -
  have "evaluateSpeaking JSON_parse one_tip_service ''I go to school yesterday'' = Inr one_tip_result"
    by (simp add: evaluateSpeaking_def one_tip_service_def one_tip_text_parses)
  moreover have "conforms evaluation_schema one_tip_result"
    by (simp add: evaluation_schema_def one_tip_result_def field_def)
  moreover have "tips_of one_tip_result = Some [''t1'']"
    by (simp add: tips_of_def one_tip_result_def field_def)
  ultimately show ?thesis by simp
qed

section \<open>Listening and processing\<close>

text \<open>
  Claim C1 fails on the code. Start Talking stays enabled while a permission request is
  pending, so two calls of \<open>startListening\<close> can wait at the same time; the second one
  resumes after Stop and Send and sets \<open>isListening\<close> while \<open>isProcessing\<close> is true.
  Every event of the run is enabled by the buttons as rendered.
\<close>

theorem overlapping_starts_listening_while_processing:
  "\<exists>w. run overlapping_starts (initial_World True True 0) = Some w \<and> reachable w
       \<and> isListening (speechState (app w)) \<and> isProcessing (speechState (app w))"
proof -
  obtain w where w: "run overlapping_starts (initial_World True True 0) = Some w"
      and l: "isListening (speechState (app w))" and p: "isProcessing (speechState (app w))"
    by (simp add: overlapping_starts_def world_defs guard_defs handler_defs setter_defs Let_def
          trim_hello)
  have "reachable w" using run_reachable [OF reachable.mounted w] .
  then show ?thesis using w l p by blast
qed

text \<open>
  On the runs in which Start Talking is not clicked while an earlier click still waits
  for the permission, the two flags exclude each other.
\<close>

lemma serial_runs_exclusive:
  "serially_reachable w \<Longrightarrow>
     \<not> (isListening (speechState (app w)) \<and> isProcessing (speechState (app w)))"
proof -
  assume "serially_reachable w"
  then have "serial_inv w"
  proof (induction rule: serially_reachable.induct)
    case (serial_mounted recognition synthesis now)
    then show ?case
      by (simp add: serial_inv_def world_defs setter_defs Let_def)
  next
    case (serial_turn w e w')
    then show ?case using serial_step_inv by blast
  qed
  then show ?thesis by (simp add: serial_inv_def)
qed

end
